theory Spec2Isabelle
  imports Main "HOL-Library.Word" "HOL-Library.Product_Lexorder"
begin

section \<open>Beacon API: validator lookup by public key\<close>

text \<open>
  Embedding of \<^verbatim>\<open>BeaconApi.getValidator\<close>
  (\<^verbatim>\<open>packages/lodestar/src/api/impl/beacon/beacon.ts\<close>).
  A public key is a byte string; the public-key to index table of the epoch context is a
  finite map keyed by the key's bytes, whose \<^verbatim>\<open>get\<close> yields \<^verbatim>\<open>undefined\<close>
  (\<open>None\<close>) for a key it does not hold. The validator record type is left polymorphic:
  the function only copies it. Of the beacon state, the model keeps the slot number and
  the two arrays the function reads.
\<close>

type_synonym byte = "8 word"
type_synonym BLSPubkey = "byte list"
type_synonym ValidatorIndex = nat
type_synonym Gwei = nat

record EpochContext =
  pubkey2index :: "BLSPubkey \<rightharpoonup> ValidatorIndex"

record 'v BeaconState =
  slot :: int
  validators :: "'v list"
  balances :: "Gwei list"

record 'v HeadStateContext =
  epochCtx :: EpochContext
  state :: "'v BeaconState"

text \<open>
  The response object. Its \<open>validator\<close> and \<open>balance\<close> fields are read from the
  state's arrays by index; a JavaScript array read past the end yields
  \<^verbatim>\<open>undefined\<close> and does not throw, so both fields are optional values.
\<close>

record 'v ValidatorResponse =
  validator :: "'v option"
  balance :: "Gwei option"
  pubkey :: BLSPubkey
  index :: ValidatorIndex

datatype api_error = IndexLookupError | StateCorruptError

definition js_index :: "'a list \<Rightarrow> nat \<Rightarrow> 'a option" where
  "js_index xs i = (if i < length xs then Some (xs ! i) else None)"

text \<open>
  The condition \<^verbatim>\<open>if (index)\<close> tests the looked-up value for truthiness:
  \<^verbatim>\<open>undefined\<close> and the number \<open>0\<close> are both falsy.
\<close>

definition truthy :: "ValidatorIndex option \<Rightarrow> bool" where
  "truthy v = (case v of None \<Rightarrow> False | Some i \<Rightarrow> i \<noteq> 0)"

text \<open>
  The function has no \<^verbatim>\<open>throw\<close>; its result is a sum so that "signals an error"
  can be stated about it, and \<open>Inr None\<close> is the returned \<^verbatim>\<open>null\<close>. The head
  state and its epoch context, obtained from the chain, are the argument \<open>hc\<close>.
\<close>

definition getValidator ::
  "'v HeadStateContext \<Rightarrow> BLSPubkey \<Rightarrow> api_error + 'v ValidatorResponse option" where
  "getValidator hc pk =
     (let idx = pubkey2index (epochCtx hc) pk in
      if truthy idx then
        (case idx of
           Some i \<Rightarrow>
             Inr (Some \<lparr> validator = js_index (validators (state hc)) i,
                         balance = js_index (balances (state hc)) i,
                         pubkey = pk,
                         index = i \<rparr>)
         | None \<Rightarrow> Inr None)
      else Inr None)"

section \<open>Validator client: producing an attestation\<close>

text \<open>
  Embedding of \<^verbatim>\<open>AttestationService.createAttestation\<close>,
  \<^verbatim>\<open>isConflictingAttestation\<close> and \<^verbatim>\<open>storeAttestation\<close>
  (\<^verbatim>\<open>packages/lodestar-validator/src/services/attestation.ts\<close>).
  The fields \<^verbatim>\<open>slot\<close> and \<^verbatim>\<open>index\<close> of the attestation data are named
  \<open>data_slot\<close> and \<open>data_index\<close> here, since a record field is a constant of the
  theory and both names are taken.
\<close>

type_synonym Epoch = nat
type_synonym Slot = nat
type_synonym CommitteeIndex = nat
type_synonym Root = "byte list"
type_synonym BLSSignature = "byte list"

record Checkpoint =
  epoch :: Epoch
  root :: Root

record AttestationData =
  data_slot :: Slot
  data_index :: CommitteeIndex
  beaconBlockRoot :: Root
  source :: Checkpoint
  target :: Checkpoint

record Attestation =
  aggregationBits :: "bool list"
  data :: AttestationData
  signature :: BLSSignature

datatype DomainType = BEACON_ATTESTER | SELECTION_PROOF | AGGREGATE_AND_PROOF

text \<open>The options object of a database query: \<^verbatim>\<open>{gte: ..., lt: ...}\<close>, either key optional.\<close>

record SearchOptions =
  gte :: "Epoch option"
  lt :: "Epoch option"

text \<open>
  The collaborators of the service whose code is not in the file: the beacon node's
  \<^verbatim>\<open>produceAttestation\<close> (a remote call that resolves with an attestation or
  rejects with a message), the three operations of the validator database on a database
  value of type \<open>'db\<close>, \<^verbatim>\<open>isSlashableAttestationData\<close>, \<^verbatim>\<open>getDomain\<close>,
  \<^verbatim>\<open>computeSigningRoot\<close> and the private key's \<^verbatim>\<open>signMessage\<close>. They are
  parameters of the model. The database operations are taken to resolve; the fork and the
  genesis validators root are opaque to the service (types \<open>'fork\<close> and \<open>Root\<close>).
  A public key argument is optional because it is read as
  \<^verbatim>\<open>this.publicKeys[attesterIndex]\<close>, which is \<^verbatim>\<open>undefined\<close> out of range.
\<close>

record ('db, 'sk, 'fork, 'dom) Collaborators =
  produceAttestation :: "BLSPubkey option \<Rightarrow> CommitteeIndex \<Rightarrow> Slot \<Rightarrow> string + Attestation"
  getAttestations :: "'db \<Rightarrow> BLSPubkey option \<Rightarrow> SearchOptions \<Rightarrow> Attestation list"
  setAttestation :: "'db \<Rightarrow> BLSPubkey option \<Rightarrow> Attestation \<Rightarrow> 'db"
  deleteAttestations :: "'db \<Rightarrow> BLSPubkey option \<Rightarrow> Attestation list \<Rightarrow> 'db"
  isSlashableAttestationData :: "AttestationData \<Rightarrow> AttestationData \<Rightarrow> bool"
  getDomain :: "'fork \<Rightarrow> Root \<Rightarrow> DomainType \<Rightarrow> Epoch \<Rightarrow> 'dom"
  computeSigningRoot :: "AttestationData \<Rightarrow> 'dom \<Rightarrow> Root"
  signMessage :: "'sk \<Rightarrow> Root \<Rightarrow> BLSSignature"

text \<open>The service's key lists (\<^verbatim>\<open>// order is important\<close>).\<close>

record 'sk AttestationService =
  privateKeys :: "'sk list"
  publicKeys :: "BLSPubkey list"

text \<open>
  What a call can change: the validator database, and the messages signed so far. The
  second component is a log kept by the model (the attester index and the signing root of
  every \<^verbatim>\<open>signMessage\<close> call), so that "nothing was signed" can be stated.
\<close>

record 'db World =
  db :: 'db
  signed :: "(int \<times> Root) list"

text \<open>
  The errors a call can end with: the rethrown failure of \<^verbatim>\<open>produceAttestation\<close>
  (slot, committee and the original message), the refusal to sign (source and target
  epoch of the new data), and the \<^verbatim>\<open>TypeError\<close> of calling \<^verbatim>\<open>signMessage\<close>
  on \<^verbatim>\<open>undefined\<close> when the attester index is outside the key list.
\<close>

datatype attestation_error =
    FailedToObtainAttestation Slot CommitteeIndex string
  | AvoidedSigningConflictingAttestation Epoch Epoch
  | TypeError

text \<open>
  The attester index is a JavaScript number; \<^verbatim>\<open>findIndex\<close> gives \<open>-1\<close> when the
  key is not found, and an array read at a negative or too large index is
  \<^verbatim>\<open>undefined\<close>.
\<close>

definition js_index_num :: "'a list \<Rightarrow> int \<Rightarrow> 'a option" where
  "js_index_num xs i = (if 0 \<le> i \<and> nat i < length xs then Some (xs ! nat i) else None)"

definition isConflictingAttestation ::
  "('db, 'sk, 'fork, 'dom) Collaborators \<Rightarrow> 'sk AttestationService \<Rightarrow> 'db World \<Rightarrow>
   int \<Rightarrow> AttestationData \<Rightarrow> bool" where
  "isConflictingAttestation deps svc w attesterIndex other =
     (let potentialAttestationConflicts =
            getAttestations deps (db w) (js_index_num (publicKeys svc) attesterIndex)
              \<lparr> gte = Some (epoch (target other)), lt = None \<rparr>
      in list_ex (\<lambda>attestation. isSlashableAttestationData deps (data attestation) other)
           potentialAttestationConflicts)"

definition storeAttestation ::
  "('db, 'sk, 'fork, 'dom) Collaborators \<Rightarrow> 'sk AttestationService \<Rightarrow> 'db World \<Rightarrow>
   int \<Rightarrow> Attestation \<Rightarrow> 'db World" where
  "storeAttestation deps svc w attesterIndex attestation =
     (let pk = js_index_num (publicKeys svc) attesterIndex;
          db1 = setAttestation deps (db w) pk attestation;
          unusedAttestations =
            getAttestations deps db1 pk
              \<lparr> gte = Some 0, lt = Some (epoch (target (data attestation))) \<rparr>;
          db2 = deleteAttestations deps db1 pk unusedAttestations
      in w\<lparr> db := db2 \<rparr>)"

definition createAttestation ::
  "('db, 'sk, 'fork, 'dom) Collaborators \<Rightarrow> 'sk AttestationService \<Rightarrow> 'db World \<Rightarrow>
   int \<Rightarrow> Slot \<Rightarrow> CommitteeIndex \<Rightarrow> 'fork \<Rightarrow> Root \<Rightarrow>
   (attestation_error + Attestation) \<times> 'db World" where
  "createAttestation deps svc w attesterIndex slt committeeIndex fork genesisValidatorsRoot =
     (case produceAttestation deps (js_index_num (publicKeys svc) attesterIndex)
             committeeIndex slt of
        Inl msg \<Rightarrow> (Inl (FailedToObtainAttestation slt committeeIndex msg), w)
      | Inr attestation \<Rightarrow>
          if isConflictingAttestation deps svc w attesterIndex (data attestation) then
            (Inl (AvoidedSigningConflictingAttestation
                    (epoch (source (data attestation)))
                    (epoch (target (data attestation)))), w)
          else
            (let domain = getDomain deps fork genesisValidatorsRoot BEACON_ATTESTER
                            (epoch (target (data attestation)));
                 signingRoot = computeSigningRoot deps (data attestation) domain
             in case js_index_num (privateKeys svc) attesterIndex of
                  None \<Rightarrow> (Inl TypeError, w)
                | Some sk \<Rightarrow>
                    (let signedAttestation =
                           attestation\<lparr> signature := signMessage deps sk signingRoot \<rparr>;
                         w1 = w\<lparr> signed := signed w @ [(attesterIndex, signingRoot)] \<rparr>;
                         w2 = storeAttestation deps svc w1 attesterIndex signedAttestation
                     in (Inr signedAttestation, w2))))"

section \<open>Execution engine: payloads on the JSON-RPC wire\<close>

text \<open>
  Embedding of \<^verbatim>\<open>serializeExecutionPayload\<close> and \<^verbatim>\<open>parseExecutionPayload\<close>,
  the two functions at the end of the execution engine's HTTP client (second document of
  \<^verbatim>\<open>packages/lodestar/src/api/impl/beacon/beacon.ts\<close>). A payload has byte-string
  fields, number fields and a list of transactions; the wire object has the same keys,
  all hex strings. The wire record's fields carry the prefix \<open>rpc_\<close>, since two records
  of one theory cannot share field names.
\<close>

type_synonym bytes = "byte list"

record ExecutionPayload =
  parentHash :: bytes
  coinbase :: bytes
  stateRoot :: bytes
  receiptRoot :: bytes
  logsBloom :: bytes
  random :: bytes
  blockNumber :: nat
  gasLimit :: nat
  gasUsed :: nat
  timestamp :: nat
  extraData :: bytes
  baseFeePerGas :: bytes
  blockHash :: bytes
  transactions :: "bytes list"

record ExecutionPayloadRpc =
  rpc_parentHash :: string
  rpc_coinbase :: string
  rpc_stateRoot :: string
  rpc_receiptRoot :: string
  rpc_logsBloom :: string
  rpc_random :: string
  rpc_blockNumber :: string
  rpc_gasLimit :: string
  rpc_gasUsed :: string
  rpc_timestamp :: string
  rpc_extraData :: string
  rpc_baseFeePerGas :: string
  rpc_blockHash :: string
  rpc_transactions :: "string list"

text \<open>
  The four conversions are imported: \<^verbatim>\<open>toHexString\<close> and \<^verbatim>\<open>fromHexString\<close>
  from the SSZ library, \<^verbatim>\<open>numberToHex\<close> and \<^verbatim>\<open>hexToNumber\<close> from the eth1
  provider's utilities. Their code is not in the file, so they are parameters. The two
  decoders may throw on a malformed string (an error of type \<open>'e\<close>).
\<close>

record 'e HexCodec =
  toHexString :: "bytes \<Rightarrow> string"
  fromHexString :: "string \<Rightarrow> 'e + bytes"
  numberToHex :: "nat \<Rightarrow> string"
  hexToNumber :: "string \<Rightarrow> 'e + nat"

definition serializeExecutionPayload :: "'e HexCodec \<Rightarrow> ExecutionPayload \<Rightarrow> ExecutionPayloadRpc" where
  "serializeExecutionPayload c d =
     \<lparr> rpc_parentHash = toHexString c (parentHash d),
       rpc_coinbase = toHexString c (coinbase d),
       rpc_stateRoot = toHexString c (stateRoot d),
       rpc_receiptRoot = toHexString c (receiptRoot d),
       rpc_logsBloom = toHexString c (logsBloom d),
       rpc_random = toHexString c (random d),
       rpc_blockNumber = numberToHex c (blockNumber d),
       rpc_gasLimit = numberToHex c (gasLimit d),
       rpc_gasUsed = numberToHex c (gasUsed d),
       rpc_timestamp = numberToHex c (timestamp d),
       rpc_extraData = toHexString c (extraData d),
       rpc_baseFeePerGas = toHexString c (baseFeePerGas d),
       rpc_blockHash = toHexString c (blockHash d),
       rpc_transactions = map (toHexString c) (transactions d) \<rparr>"

text \<open>
  An object literal evaluates its properties in order, and the first conversion that
  throws ends the call: \<open>bindE\<close> sequences two steps, \<open>mapE\<close> is
  \<^verbatim>\<open>Array.prototype.map\<close> with a callback that may throw.
\<close>

definition bindE :: "'e + 'a \<Rightarrow> ('a \<Rightarrow> 'e + 'b) \<Rightarrow> 'e + 'b" where
  "bindE m f = (case m of Inl e \<Rightarrow> Inl e | Inr x \<Rightarrow> f x)"

fun mapE :: "('a \<Rightarrow> 'e + 'b) \<Rightarrow> 'a list \<Rightarrow> 'e + 'b list" where
  "mapE f [] = Inr []"
| "mapE f (x # xs) = bindE (f x) (\<lambda>y. bindE (mapE f xs) (\<lambda>ys. Inr (y # ys)))"

definition parseExecutionPayload :: "'e HexCodec \<Rightarrow> ExecutionPayloadRpc \<Rightarrow> 'e + ExecutionPayload" where
  "parseExecutionPayload c d =
     bindE (fromHexString c (rpc_parentHash d)) (\<lambda>v1.
     bindE (fromHexString c (rpc_coinbase d)) (\<lambda>v2.
     bindE (fromHexString c (rpc_stateRoot d)) (\<lambda>v3.
     bindE (fromHexString c (rpc_receiptRoot d)) (\<lambda>v4.
     bindE (fromHexString c (rpc_logsBloom d)) (\<lambda>v5.
     bindE (fromHexString c (rpc_random d)) (\<lambda>v6.
     bindE (hexToNumber c (rpc_blockNumber d)) (\<lambda>v7.
     bindE (hexToNumber c (rpc_gasLimit d)) (\<lambda>v8.
     bindE (hexToNumber c (rpc_gasUsed d)) (\<lambda>v9.
     bindE (hexToNumber c (rpc_timestamp d)) (\<lambda>v10.
     bindE (fromHexString c (rpc_extraData d)) (\<lambda>v11.
     bindE (fromHexString c (rpc_baseFeePerGas d)) (\<lambda>v12.
     bindE (fromHexString c (rpc_blockHash d)) (\<lambda>v13.
     bindE (mapE (fromHexString c) (rpc_transactions d)) (\<lambda>v14.
     Inr \<lparr> parentHash = v1, coinbase = v2, stateRoot = v3, receiptRoot = v4,
           logsBloom = v5, random = v6, blockNumber = v7, gasLimit = v8, gasUsed = v9,
           timestamp = v10, extraData = v11, baseFeePerGas = v12, blockHash = v13,
           transactions = v14 \<rparr>))))))))))))))"

section \<open>Registry updates: activation under the churn limit\<close>

text \<open>
  The validator record of the data model: public key, effective balance, the four epochs
  and the slashed flag.
\<close>

record Validator =
  validatorPubkey :: BLSPubkey
  effectiveBalance :: Gwei
  activationEligibilityEpoch :: Epoch
  activationEpoch :: Epoch
  exitEpoch :: Epoch
  withdrawableEpoch :: Epoch
  slashed :: bool

record RegistryParams =
  MIN_PER_EPOCH_CHURN_LIMIT :: nat
  CHURN_LIMIT_QUOTIENT :: nat

text \<open>
  Modelled from the spec: the activation pass of \<^verbatim>\<open>processRegistryUpdates\<close>, whose
  code is not in the sources (only a performance test calls it). The spec's words: eligible
  validators, ordered by activation-eligibility epoch ascending and then index ascending,
  are activated up to a per-epoch churn limit computed as the maximum of
  \<open>MIN_PER_EPOCH_CHURN_LIMIT\<close> and the active validator count divided by
  \<open>CHURN_LIMIT_QUOTIENT\<close>; validators beyond the limit remain queued. The spec does not
  fix when a validator counts as eligible nor which epoch an activation records, so the
  eligibility test and the recorded activation epoch are parameters.
\<close>

definition churnLimit :: "RegistryParams \<Rightarrow> nat \<Rightarrow> nat" where
  "churnLimit cfg activeValidatorCount =
     max (MIN_PER_EPOCH_CHURN_LIMIT cfg) (activeValidatorCount div CHURN_LIMIT_QUOTIENT cfg)"

definition activationQueue :: "(Validator \<Rightarrow> bool) \<Rightarrow> Validator list \<Rightarrow> ValidatorIndex list" where
  "activationQueue eligible vs =
     sort_key (\<lambda>i. (activationEligibilityEpoch (vs ! i), i))
       (filter (\<lambda>i. eligible (vs ! i)) [0..<length vs])"

definition activateValidator :: "Epoch \<Rightarrow> Validator \<Rightarrow> Validator" where
  "activateValidator e v = v\<lparr> activationEpoch := e \<rparr>"

definition processActivations ::
  "RegistryParams \<Rightarrow> (Validator \<Rightarrow> bool) \<Rightarrow> Epoch \<Rightarrow> nat \<Rightarrow> Validator list \<Rightarrow> Validator list" where
  "processActivations cfg eligible e activeValidatorCount vs =
     fold (\<lambda>i acc. acc[i := activateValidator e (acc ! i)])
       (take (churnLimit cfg activeValidatorCount) (activationQueue eligible vs)) vs"

section \<open>Concrete collaborators\<close>

text \<open>
  Stand-ins for the collaborators, used only to run the model at concrete inputs: a
  database held in memory as a list of stored attestations with their keys, queried by
  target epoch, and the two slashing conditions of the protocol (double vote, surround
  vote).
\<close>

definition inRange :: "SearchOptions \<Rightarrow> Epoch \<Rightarrow> bool" where
  "inRange opts e =
     ((case gte opts of None \<Rightarrow> True | Some lo \<Rightarrow> lo \<le> e) \<and>
      (case lt opts of None \<Rightarrow> True | Some hi \<Rightarrow> e < hi))"

definition memGetAttestations ::
  "(BLSPubkey option \<times> Attestation) list \<Rightarrow> BLSPubkey option \<Rightarrow> SearchOptions \<Rightarrow>
   Attestation list" where
  "memGetAttestations store pk opts =
     map snd (filter (\<lambda>(k, a). k = pk \<and> inRange opts (epoch (target (data a)))) store)"

definition memSetAttestation ::
  "(BLSPubkey option \<times> Attestation) list \<Rightarrow> BLSPubkey option \<Rightarrow> Attestation \<Rightarrow>
   (BLSPubkey option \<times> Attestation) list" where
  "memSetAttestation store pk a = store @ [(pk, a)]"

definition memDeleteAttestations ::
  "(BLSPubkey option \<times> Attestation) list \<Rightarrow> BLSPubkey option \<Rightarrow> Attestation list \<Rightarrow>
   (BLSPubkey option \<times> Attestation) list" where
  "memDeleteAttestations store pk as =
     filter (\<lambda>(k, a). \<not> (k = pk \<and> a \<in> set as)) store"

definition doubleOrSurroundVote :: "AttestationData \<Rightarrow> AttestationData \<Rightarrow> bool" where
  "doubleOrSurroundVote data1 data2 =
     ((data1 \<noteq> data2 \<and> epoch (target data1) = epoch (target data2)) \<or>
      (epoch (source data1) < epoch (source data2) \<and>
       epoch (target data2) < epoch (target data1)))"

definition demoAttestation :: "Epoch \<Rightarrow> Epoch \<Rightarrow> Root \<Rightarrow> Attestation" where
  "demoAttestation s t r =
     \<lparr> aggregationBits = [True],
       data = \<lparr> data_slot = 8 * t, data_index = 0, beaconBlockRoot = r,
                source = \<lparr> epoch = s, root = [] \<rparr>,
                target = \<lparr> epoch = t, root = r \<rparr> \<rparr>,
       signature = [] \<rparr>"

definition demoCollaborators ::
  "Attestation \<Rightarrow>
   ((BLSPubkey option \<times> Attestation) list, byte, unit, byte) Collaborators" where
  "demoCollaborators produced =
     \<lparr> produceAttestation = (\<lambda>pk ci sl. Inr produced),
       getAttestations = memGetAttestations,
       setAttestation = memSetAttestation,
       deleteAttestations = memDeleteAttestations,
       isSlashableAttestationData = doubleOrSurroundVote,
       getDomain = (\<lambda>f g d e. 1),
       computeSigningRoot = (\<lambda>d dom. dom # beaconBlockRoot d),
       signMessage = (\<lambda>sk r. sk # r) \<rparr>"

definition demoService :: "byte AttestationService" where
  "demoService = \<lparr> privateKeys = [7], publicKeys = [[9]] \<rparr>"

definition demoWorld :: "(BLSPubkey option \<times> Attestation) list World" where
  "demoWorld = \<lparr> db = [(Some [9], demoAttestation 4 5 [1])], signed = [] \<rparr>"

text \<open>
  A registry for the activation pass: ten validators awaiting activation (activation
  epoch still the far-future marker) with the eligibility epochs below, and two that are
  already active.
\<close>

definition FAR_FUTURE_EPOCH :: Epoch where
  "FAR_FUTURE_EPOCH = 18446744073709551615"

definition demoValidator :: "Epoch \<Rightarrow> Epoch \<Rightarrow> Validator" where
  "demoValidator eligibility activation =
     \<lparr> validatorPubkey = [], effectiveBalance = 32000000000,
       activationEligibilityEpoch = eligibility, activationEpoch = activation,
       exitEpoch = FAR_FUTURE_EPOCH, withdrawableEpoch = FAR_FUTURE_EPOCH, slashed = False \<rparr>"

definition demoValidators :: "Validator list" where
  "demoValidators =
     map (\<lambda>e. demoValidator e FAR_FUTURE_EPOCH) [5, 3, 5, 1, 3, 9, 1, 7, 2, 8]
     @ [demoValidator 0 0, demoValidator 0 0]"

definition awaitingActivation :: "Validator \<Rightarrow> bool" where
  "awaitingActivation v = (activationEpoch v = FAR_FUTURE_EPOCH)"

definition demoRegistryParams :: RegistryParams where
  "demoRegistryParams = \<lparr> MIN_PER_EPOCH_CHURN_LIMIT = 4, CHURN_LIMIT_QUOTIENT = 65536 \<rparr>"

section \<open>A concrete hex codec\<close>

text \<open>
  A lower-case hex codec with the \<^verbatim>\<open>0x\<close> prefix, used to run the payload
  conversions at concrete inputs: two digits per byte for byte strings, and the shortest
  big-endian digit string for numbers.
\<close>

definition hexChars :: string where
  "hexChars = ''0123456789abcdef''"

definition hexDigit :: "nat \<Rightarrow> char" where
  "hexDigit d = hexChars ! (d mod 16)"

definition digitValue :: "char \<Rightarrow> nat option" where
  "digitValue ch =
     (let k = length (takeWhile (\<lambda>x. x \<noteq> ch) hexChars)
      in if k < 16 then Some k else None)"

definition byteToHex :: "byte \<Rightarrow> string" where
  "byteToHex b = [hexDigit (unat b div 16), hexDigit (unat b mod 16)]"

fun hexToBytes :: "string \<Rightarrow> string + bytes" where
  "hexToBytes [] = Inr []"
| "hexToBytes [ch] = Inl ''odd number of hex digits''"
| "hexToBytes (hi # lo # rest) =
     (case (digitValue hi, digitValue lo) of
        (Some h, Some l) \<Rightarrow> bindE (hexToBytes rest) (\<lambda>bs. Inr (of_nat (16 * h + l) # bs))
      | _ \<Rightarrow> Inl ''not a hex digit'')"

fun natToHex :: "nat \<Rightarrow> string" where
  "natToHex n = (if n < 16 then [hexDigit n] else natToHex (n div 16) @ [hexDigit (n mod 16)])"

declare natToHex.simps [simp del]

fun parseHexDigits :: "nat \<Rightarrow> string \<Rightarrow> string + nat" where
  "parseHexDigits acc [] = Inr acc"
| "parseHexDigits acc (ch # rest) =
     (case digitValue ch of
        None \<Rightarrow> Inl ''not a hex digit''
      | Some d \<Rightarrow> parseHexDigits (16 * acc + d) rest)"

definition demoCodec :: "string HexCodec" where
  "demoCodec =
     \<lparr> toHexString = (\<lambda>bs. ''0x'' @ concat (map byteToHex bs)),
       fromHexString = (\<lambda>s. hexToBytes (if take 2 s = ''0x'' then drop 2 s else s)),
       numberToHex = (\<lambda>n. ''0x'' @ natToHex n),
       hexToNumber = (\<lambda>s. if take 2 s = ''0x'' \<and> 2 < length s
                            then parseHexDigits 0 (drop 2 s)
                            else Inl ''not a hex number'') \<rparr>"

definition demoPayload :: ExecutionPayload where
  "demoPayload =
     \<lparr> parentHash = [0x12, 0xab], coinbase = [0xff], stateRoot = [], receiptRoot = [0x00],
       logsBloom = [0x0f, 0xf0], random = [0x7f], blockNumber = 0, gasLimit = 30000000,
       gasUsed = 21000, timestamp = 1634000000, extraData = [], baseFeePerGas = [0x07, 0x00],
       blockHash = [0xde, 0xad], transactions = [[0x01, 0x02], []] \<rparr>"

section \<open>Properties of the validator lookup\<close>

text \<open>
  Claim C8. \<^verbatim>\<open>getValidator\<close> returns a validator record exactly when the table maps
  the requested key to a non-zero index, and the record then holds the state's entries at
  that index. For the validator stored at index \<open>0\<close> it returns \<^verbatim>\<open>null\<close> although
  the key is in the table, and for a key the table does not hold it returns
  \<^verbatim>\<open>null\<close> as well.
\<close>

theorem getValidator_record_iff_nonzero_index:
  "(\<forall>r. getValidator hc pk = Inr (Some r) \<longleftrightarrow>
        (\<exists>i. pubkey2index (epochCtx hc) pk = Some i \<and> i \<noteq> 0 \<and>
             r = \<lparr> validator = js_index (validators (state hc)) i,
                   balance = js_index (balances (state hc)) i,
                   pubkey = pk, index = i \<rparr>))
   \<and> (pubkey2index (epochCtx hc) pk = Some 0 \<longrightarrow> getValidator hc pk = Inr None)
   \<and> (pubkey2index (epochCtx hc) pk = None \<longrightarrow> getValidator hc pk = Inr None)"
  by (auto simp: getValidator_def truthy_def Let_def split: option.splits)

theorem getValidator_record_iff_nonzero_index_witness:
  "pubkey2index \<lparr> pubkey2index = [[1] \<mapsto> 0, [2] \<mapsto> 1] \<rparr> [1] = Some 0
   \<and> getValidator \<lparr> epochCtx = \<lparr> pubkey2index = [[1] \<mapsto> 0, [2] \<mapsto> 1] \<rparr>,
                     state = \<lparr> slot = 0, validators = [''a'', ''b''], balances = [32, 31] \<rparr> \<rparr> [1]
       = Inr None
   \<and> pubkey2index \<lparr> pubkey2index = [[1] \<mapsto> 0, [2] \<mapsto> 1] \<rparr> [3] = None
   \<and> getValidator \<lparr> epochCtx = \<lparr> pubkey2index = [[1] \<mapsto> 0, [2] \<mapsto> 1] \<rparr>,
                     state = \<lparr> slot = 0, validators = [''a'', ''b''], balances = [32, 31] \<rparr> \<rparr> [3]
       = Inr None
   \<and> getValidator \<lparr> epochCtx = \<lparr> pubkey2index = [[1] \<mapsto> 0, [2] \<mapsto> 1] \<rparr>,
                     state = \<lparr> slot = 0, validators = [''a'', ''b''], balances = [32, 31] \<rparr> \<rparr> [2]
       = Inr (Some \<lparr> validator = Some ''b'', balance = Some 31, pubkey = [2], index = 1 \<rparr>)"
  using getValidator_record_iff_nonzero_index
    [of "\<lparr> epochCtx = \<lparr> pubkey2index = [[1] \<mapsto> 0, [2] \<mapsto> 1] \<rparr>,
           state = \<lparr> slot = 0, validators = [''a'', ''b''], balances = [32, 31] \<rparr> \<rparr>" "[1]"]
    getValidator_record_iff_nonzero_index
    [of "\<lparr> epochCtx = \<lparr> pubkey2index = [[1] \<mapsto> 0, [2] \<mapsto> 1] \<rparr>,
           state = \<lparr> slot = 0, validators = [''a'', ''b''], balances = [32, 31] \<rparr> \<rparr>" "[3]"]
    getValidator_record_iff_nonzero_index
    [of "\<lparr> epochCtx = \<lparr> pubkey2index = [[1] \<mapsto> 0, [2] \<mapsto> 1] \<rparr>,
           state = \<lparr> slot = 0, validators = [''a'', ''b''], balances = [32, 31] \<rparr> \<rparr>" "[2]"]
  by (simp add: js_index_def)

text \<open>
  Claim C3, as stated: a lookup of a public key that the table does not hold fails with
  \<open>IndexLookupError\<close>, also through \<^verbatim>\<open>getValidator\<close>. The code does not: the
  table's \<^verbatim>\<open>get\<close> yields \<^verbatim>\<open>undefined\<close> and the function takes its
  \<^verbatim>\<open>else\<close> branch, returning \<^verbatim>\<open>null\<close>. The key \<open>[3]\<close> below is in no
  entry of the table.
\<close>

theorem getValidator_unknown_key_counterexample:
  "pubkey2index \<lparr> pubkey2index = [[1] \<mapsto> 0, [2] \<mapsto> 1] \<rparr> [3] = None
   \<and> getValidator \<lparr> epochCtx = \<lparr> pubkey2index = [[1] \<mapsto> 0, [2] \<mapsto> 1] \<rparr>,
                     state = \<lparr> slot = 0, validators = [''a'', ''b''], balances = [32, 31] \<rparr> \<rparr> [3]
       \<noteq> Inl IndexLookupError"
  by (simp add: getValidator_def truthy_def)

text \<open>
  Claim C3, amended: for every public key that is not present in the epoch context's
  public-key to index table, requesting that key's validator index yields no index
  (\<^verbatim>\<open>undefined\<close>) instead of failing, and a lookup through
  \<^verbatim>\<open>BeaconApi.getValidator\<close> for such a key returns \<^verbatim>\<open>null\<close>: it produces no
  validator record and signals no error.
\<close>

theorem getValidator_unknown_key_null:
  assumes "pk \<notin> dom (pubkey2index (epochCtx hc))"
  shows "pubkey2index (epochCtx hc) pk = None \<and> getValidator hc pk = Inr None"
proof -
  from assms have absent: "pubkey2index (epochCtx hc) pk = None"
    by (simp add: domIff)
  then have "getValidator hc pk = Inr None"
    by (simp add: getValidator_def truthy_def)
  with absent show ?thesis by simp
qed

theorem getValidator_unknown_key_null_witness:
  "[7] \<notin> dom (pubkey2index \<lparr> pubkey2index = [[1] \<mapsto> 0, [2] \<mapsto> 1] \<rparr>)
   \<and> getValidator \<lparr> epochCtx = \<lparr> pubkey2index = [[1] \<mapsto> 0, [2] \<mapsto> 1] \<rparr>,
                     state = \<lparr> slot = 5, validators = [''a'', ''b''], balances = [32, 31] \<rparr> \<rparr> [7]
       = (Inr None :: api_error + string ValidatorResponse option)"
proof -
  have h: "[7] \<notin> dom (pubkey2index (epochCtx
      \<lparr> epochCtx = \<lparr> pubkey2index = [[1] \<mapsto> 0, [2] \<mapsto> 1] \<rparr>,
        state = \<lparr> slot = 5, validators = [''a'', ''b''], balances = [32, 31] \<rparr> \<rparr>))"
    by simp
  from getValidator_unknown_key_null [OF h] h show ?thesis by simp
qed

section \<open>Properties of attestation production\<close>

text \<open>
  Claim C9. \<^verbatim>\<open>createAttestation\<close> never signs or stores a slashable attestation:
  whenever the freshly produced attestation data is slashable (by
  \<^verbatim>\<open>isSlashableAttestationData\<close>) against some attestation that the database
  returns for the validator's key with target epoch at least the new data's target epoch
  (the query \<^verbatim>\<open>{gte: other.target.epoch}\<close>), the call throws before the signing and
  storing steps: it ends with the refusal error, and the database and the log of signed
  messages are what they were.
\<close>

theorem createAttestation_refuses_slashable:
  assumes produced:
    "produceAttestation deps (js_index_num (publicKeys svc) i) ci sl = Inr att"
  assumes slashable:
    "\<exists>stored \<in> set (getAttestations deps (db w) (js_index_num (publicKeys svc) i)
                       \<lparr> gte = Some (epoch (target (data att))), lt = None \<rparr>).
       isSlashableAttestationData deps (data stored) (data att)"
  shows "createAttestation deps svc w i sl ci fork gvr =
           (Inl (AvoidedSigningConflictingAttestation
                   (epoch (source (data att))) (epoch (target (data att)))), w)"
proof -
  from slashable have "isConflictingAttestation deps svc w i (data att)"
    by (simp add: isConflictingAttestation_def list_ex_iff)
  with produced show ?thesis
    by (simp add: createAttestation_def)
qed

theorem createAttestation_refuses_slashable_witness:
  "produceAttestation (demoCollaborators (demoAttestation 4 5 [2]))
       (js_index_num (publicKeys demoService) 0) 0 40
     = Inr (demoAttestation 4 5 [2])
   \<and> (\<exists>stored \<in> set (getAttestations (demoCollaborators (demoAttestation 4 5 [2]))
                        (db demoWorld) (js_index_num (publicKeys demoService) 0)
                        \<lparr> gte = Some 5, lt = None \<rparr>).
         isSlashableAttestationData (demoCollaborators (demoAttestation 4 5 [2]))
           (data stored) (data (demoAttestation 4 5 [2])))
   \<and> createAttestation (demoCollaborators (demoAttestation 4 5 [2])) demoService demoWorld
        0 40 0 () []
     = (Inl (AvoidedSigningConflictingAttestation 4 5), demoWorld)"
proof -
  have produced:
    "produceAttestation (demoCollaborators (demoAttestation 4 5 [2]))
       (js_index_num (publicKeys demoService) 0) 0 40
     = Inr (demoAttestation 4 5 [2])"
    by (simp add: demoCollaborators_def)
  have target5: "epoch (target (data (demoAttestation 4 5 [2]))) = 5"
    and source4: "epoch (source (data (demoAttestation 4 5 [2]))) = 4"
    by (simp_all add: demoAttestation_def)
  have slashable:
    "\<exists>stored \<in> set (getAttestations (demoCollaborators (demoAttestation 4 5 [2]))
                       (db demoWorld) (js_index_num (publicKeys demoService) 0)
                       \<lparr> gte = Some (epoch (target (data (demoAttestation 4 5 [2])))),
                         lt = None \<rparr>).
       isSlashableAttestationData (demoCollaborators (demoAttestation 4 5 [2]))
         (data stored) (data (demoAttestation 4 5 [2]))"
    by (simp add: demoCollaborators_def demoWorld_def demoService_def js_index_num_def
        memGetAttestations_def inRange_def doubleOrSurroundVote_def demoAttestation_def)
  from createAttestation_refuses_slashable [OF produced slashable, of "()" "[]"]
    produced slashable
  show ?thesis
    by (simp only: target5 source4)
qed

text \<open>
  For contrast, the other branch: when no attestation returned by the query is slashable
  against the new data and the attester index names a key, the call signs the data,
  logs the signature and stores the signed attestation.
\<close>

lemma createAttestation_signs_when_clear:
  assumes "produceAttestation deps (js_index_num (publicKeys svc) i) ci sl = Inr att"
  assumes "\<not> isConflictingAttestation deps svc w i (data att)"
  assumes "js_index_num (privateKeys svc) i = Some sk"
  shows "fst (createAttestation deps svc w i sl ci fork gvr) =
           Inr (att\<lparr> signature := signMessage deps sk
                  (computeSigningRoot deps (data att)
                     (getDomain deps fork gvr BEACON_ATTESTER (epoch (target (data att))))) \<rparr>)
         \<and> signed (snd (createAttestation deps svc w i sl ci fork gvr)) =
             signed w @ [(i, computeSigningRoot deps (data att)
                            (getDomain deps fork gvr BEACON_ATTESTER (epoch (target (data att)))))]"
  using assms
  by (simp add: createAttestation_def storeAttestation_def Let_def)

lemma memGetAttestations_two:
  assumes "inRange opts (epoch (target (data old)))" "\<not> inRange opts (epoch (target (data new)))"
  shows "memGetAttestations [(k, old), (k, new)] k opts = [old]"
  using assms by (simp add: memGetAttestations_def)

lemma memDeleteAttestations_two:
  assumes "new \<noteq> old"
  shows "memDeleteAttestations [(k, old), (k, new)] k [old] = [(k, new)]"
  using assms by (simp add: memDeleteAttestations_def)

lemma demo_storeAttestation:
  "storeAttestation (demoCollaborators produced) demoService
     \<lparr> db = [(Some [9], demoAttestation 4 5 [1])], signed = sg \<rparr> 0
     ((demoAttestation 5 6 [2])\<lparr> signature := [7, 1, 2] \<rparr>)
   = \<lparr> db = [(Some [9], (demoAttestation 5 6 [2])\<lparr> signature := [7, 1, 2] \<rparr>)], signed = sg \<rparr>"
proof -
  have old_in: "inRange \<lparr> gte = Some 0, lt = Some 6 \<rparr> (epoch (target (data (demoAttestation 4 5 [1]))))"
    by (simp add: inRange_def demoAttestation_def)
  have new_out: "\<not> inRange \<lparr> gte = Some 0, lt = Some 6 \<rparr>
      (epoch (target (data ((demoAttestation 5 6 [2])\<lparr> signature := [7, 1, 2] \<rparr>))))"
    by (simp add: inRange_def demoAttestation_def)
  have differ: "(demoAttestation 5 6 [2])\<lparr> signature := [7, 1, 2] \<rparr> \<noteq> demoAttestation 4 5 [1]"
    by (simp add: demoAttestation_def)
  have t6: "epoch (target (data (demoAttestation 5 6 [2]))) = 6"
    by (simp add: demoAttestation_def)
  show ?thesis
    unfolding storeAttestation_def Let_def
    by (simp add: demoCollaborators_def demoService_def js_index_num_def memSetAttestation_def t6
        memGetAttestations_two [OF old_in new_out] memDeleteAttestations_two [OF differ])
qed

lemma demo_createAttestation_clear:
  "createAttestation (demoCollaborators (demoAttestation 5 6 [2])) demoService demoWorld
     0 48 0 () []
   = (Inr ((demoAttestation 5 6 [2])\<lparr> signature := [7, 1, 2] \<rparr>),
      \<lparr> db = [(Some [9], (demoAttestation 5 6 [2])\<lparr> signature := [7, 1, 2] \<rparr>)],
        signed = [(0, [1, 2])] \<rparr>)"
proof -
  have clear: "\<not> isConflictingAttestation (demoCollaborators (demoAttestation 5 6 [2]))
                   demoService demoWorld 0 (data (demoAttestation 5 6 [2]))"
    by (simp add: isConflictingAttestation_def demoCollaborators_def demoService_def
        demoWorld_def js_index_num_def memGetAttestations_def inRange_def
        demoAttestation_def)
  have produced: "produceAttestation (demoCollaborators (demoAttestation 5 6 [2]))
                    (js_index_num (publicKeys demoService) 0) 0 48 = Inr (demoAttestation 5 6 [2])"
    by (simp add: demoCollaborators_def)
  have key: "js_index_num (privateKeys demoService) 0 = Some 7"
    by (simp add: demoService_def js_index_num_def)
  have root: "computeSigningRoot (demoCollaborators (demoAttestation 5 6 [2]))
                (data (demoAttestation 5 6 [2]))
                (getDomain (demoCollaborators (demoAttestation 5 6 [2])) () [] BEACON_ATTESTER
                   (epoch (target (data (demoAttestation 5 6 [2]))))) = [1, 2]"
    by (simp add: demoCollaborators_def demoAttestation_def)
  have sig: "signMessage (demoCollaborators (demoAttestation 5 6 [2])) 7 [1, 2] = [7, 1, 2]"
    by (simp add: demoCollaborators_def)
  have start: "demoWorld\<lparr> signed := signed demoWorld @ [(0, [1, 2])] \<rparr>
               = \<lparr> db = [(Some [9], demoAttestation 4 5 [1])], signed = [(0, [1, 2])] \<rparr>"
    by (simp add: demoWorld_def)
  show ?thesis
    unfolding createAttestation_def Let_def
    by (simp only: produced clear key root sig start demo_storeAttestation
        sum.case option.case if_False)
qed

section \<open>Properties of the payload conversions\<close>

lemma mapE_left_inverse:
  assumes "\<And>x. g (f x) = Inr x"
  shows "mapE g (map f xs) = Inr xs"
  by (induction xs) (simp_all add: assms bindE_def)

text \<open>
  Claim C10. \<^verbatim>\<open>parseExecutionPayload\<close> is a left inverse of
  \<^verbatim>\<open>serializeExecutionPayload\<close>: when the byte-string conversion decodes what it
  encoded and the four number fields of the payload are representable in the hex
  encoding (decoding their encoding gives them back), parsing the serialized payload
  returns the payload, field for field.
\<close>

theorem parse_serialize_ExecutionPayload:
  assumes bytes_ok: "\<And>b. fromHexString c (toHexString c b) = Inr b"
  assumes numbers_ok:
    "hexToNumber c (numberToHex c (blockNumber p)) = Inr (blockNumber p)"
    "hexToNumber c (numberToHex c (gasLimit p)) = Inr (gasLimit p)"
    "hexToNumber c (numberToHex c (gasUsed p)) = Inr (gasUsed p)"
    "hexToNumber c (numberToHex c (timestamp p)) = Inr (timestamp p)"
  shows "parseExecutionPayload c (serializeExecutionPayload c p) = Inr p"
proof -
  have txs: "mapE (fromHexString c) (map (toHexString c) (transactions p)) = Inr (transactions p)"
    by (rule mapE_left_inverse) (rule bytes_ok)
  show ?thesis
    unfolding parseExecutionPayload_def serializeExecutionPayload_def
    by (simp add: bindE_def bytes_ok numbers_ok txs)
qed

text \<open>The concrete codec is lossless on every byte string and every number.\<close>

lemma digitValue_hexDigit_all: "\<forall>d \<in> set [0..<16]. digitValue (hexDigit d) = Some d"
  by code_simp

lemma digitValue_hexDigit: "d < 16 \<Longrightarrow> digitValue (hexDigit d) = Some d"
  using digitValue_hexDigit_all by simp

lemma hexToBytes_byteToHex: "hexToBytes (concat (map byteToHex bs)) = Inr bs"
proof (induction bs)
  case Nil show ?case by simp
next
  case (Cons b bs)
  have hi: "digitValue (hexDigit (unat b div 16)) = Some (unat b div 16)"
    by (rule digitValue_hexDigit) (use unsigned_less [of b, where 'a = nat] in simp)
  have lo: "digitValue (hexDigit (unat b mod 16)) = Some (unat b mod 16)"
    by (rule digitValue_hexDigit) simp
  have "(of_nat (16 * (unat b div 16) + unat b mod 16) :: byte) = b"
    by simp
  with Cons hi lo show ?case
    by (simp add: byteToHex_def bindE_def)
qed

lemma parseHexDigits_append:
  "parseHexDigits acc (xs @ ys) = bindE (parseHexDigits acc xs) (\<lambda>a. parseHexDigits a ys)"
  by (induction xs arbitrary: acc) (simp_all add: bindE_def split: option.splits)

lemma parseHexDigits_natToHex:
  "parseHexDigits acc (natToHex n) = Inr (acc * 16 ^ length (natToHex n) + n)"
proof (induction n arbitrary: acc rule: natToHex.induct)
  case (1 n)
  show ?case
  proof (cases "n < 16")
    case True
    then show ?thesis by (subst natToHex.simps, subst natToHex.simps) (simp add: digitValue_hexDigit)
  next
    case False
    have lo: "digitValue (hexDigit (n mod 16)) = Some (n mod 16)"
      by (rule digitValue_hexDigit) simp
    have unfold: "natToHex n = natToHex (n div 16) @ [hexDigit (n mod 16)]"
      using False by (subst natToHex.simps) simp
    have "acc * 16 ^ length (natToHex n) + n
          = 16 * (acc * 16 ^ length (natToHex (n div 16)) + n div 16) + n mod 16"
      by (simp add: unfold algebra_simps)
    with 1 [OF False] lo show ?thesis
      by (simp add: unfold parseHexDigits_append bindE_def)
  qed
qed

lemma natToHex_nonempty: "natToHex n \<noteq> []"
  by (subst natToHex.simps) simp

lemma demoCodec_bytes: "fromHexString demoCodec (toHexString demoCodec b) = Inr b"
  by (simp add: demoCodec_def hexToBytes_byteToHex)

lemma demoCodec_numbers: "hexToNumber demoCodec (numberToHex demoCodec n) = Inr n"
  using natToHex_nonempty [of n]
  by (simp add: demoCodec_def parseHexDigits_natToHex)

lemma demoPayload_on_the_wire:
  "rpc_parentHash (serializeExecutionPayload demoCodec demoPayload) = ''0x12ab''"
  "rpc_gasUsed (serializeExecutionPayload demoCodec demoPayload) = ''0x5208''"
  "rpc_blockNumber (serializeExecutionPayload demoCodec demoPayload) = ''0x0''"
  "rpc_transactions (serializeExecutionPayload demoCodec demoPayload) = [''0x0102'', ''0x'']"
  by (simp_all add: serializeExecutionPayload_def demoCodec_def demoPayload_def
      byteToHex_def natToHex.simps hexDigit_def hexChars_def)

theorem parse_serialize_ExecutionPayload_witness:
  "(\<forall>b. fromHexString demoCodec (toHexString demoCodec b) = Inr b)
   \<and> hexToNumber demoCodec (numberToHex demoCodec (blockNumber demoPayload))
       = Inr (blockNumber demoPayload)
   \<and> hexToNumber demoCodec (numberToHex demoCodec (gasLimit demoPayload))
       = Inr (gasLimit demoPayload)
   \<and> hexToNumber demoCodec (numberToHex demoCodec (gasUsed demoPayload))
       = Inr (gasUsed demoPayload)
   \<and> hexToNumber demoCodec (numberToHex demoCodec (timestamp demoPayload))
       = Inr (timestamp demoPayload)
   \<and> parseExecutionPayload demoCodec (serializeExecutionPayload demoCodec demoPayload)
       = Inr demoPayload"
  using parse_serialize_ExecutionPayload [of demoCodec demoPayload,
      OF demoCodec_bytes demoCodec_numbers demoCodec_numbers demoCodec_numbers
        demoCodec_numbers]
  by (simp only: demoCodec_bytes demoCodec_numbers simp_thms)

section \<open>Properties of activation under the churn limit\<close>

lemma fold_update_nth:
  assumes "distinct is" "\<forall>i \<in> set is. i < length xs" "j < length xs"
  shows "fold (\<lambda>i acc. acc[i := f (acc ! i)]) is xs ! j =
           (if j \<in> set is then f (xs ! j) else xs ! j)"
  using assms
proof (induction "is" arbitrary: xs)
  case Nil
  then show ?case by simp
next
  case (Cons i "is")
  have "fold (\<lambda>i acc. acc[i := f (acc ! i)]) is (xs[i := f (xs ! i)]) ! j
        = (if j \<in> set is then f (xs[i := f (xs ! i)] ! j) else xs[i := f (xs ! i)] ! j)"
    using Cons.prems by (intro Cons.IH) auto
  with Cons.prems show ?case
    by (auto simp: nth_list_update)
qed

lemma length_fold_update:
  "length (fold (\<lambda>i acc. acc[i := f (acc ! i)]) is xs) = length xs"
  by (induction "is" arbitrary: xs) simp_all

lemma set_activationQueue:
  "set (activationQueue eligible vs) = {i. i < length vs \<and> eligible (vs ! i)}"
  by (auto simp: activationQueue_def)

lemma distinct_activationQueue: "distinct (activationQueue eligible vs)"
  by (simp add: activationQueue_def)

lemma sorted_activationQueue:
  "sorted (map (\<lambda>i. (activationEligibilityEpoch (vs ! i), i)) (activationQueue eligible vs))"
  by (simp add: activationQueue_def)

lemma length_filter_indices:
  "length (filter (\<lambda>k. Q (vs ! k)) [0..<length vs]) = length (filter Q vs)"
proof (induction vs rule: rev_induct)
  case Nil
  show ?case by simp
next
  case (snoc v vs)
  have "filter (\<lambda>k. Q ((vs @ [v]) ! k)) [0..<length vs] = filter (\<lambda>k. Q (vs ! k)) [0..<length vs]"
    by (rule filter_cong) (simp_all add: nth_append)
  with snoc show ?case by simp
qed

lemma length_activationQueue:
  "length (activationQueue eligible vs) = length (filter eligible vs)"
  by (simp add: activationQueue_def length_filter_indices)

text \<open>
  Claim C7. When \<open>n\<close> validators are eligible for activation and the churn limit is
  \<open>c = max MIN_PER_EPOCH_CHURN_LIMIT (activeValidatorCount div CHURN_LIMIT_QUOTIENT)\<close>,
  exactly \<open>min n c\<close> validators are activated: the activation queue holds the eligible
  indices, each once, in ascending order of (eligibility epoch, index); its first
  \<open>min n c\<close> entries are the validators whose record becomes the activated one; every
  other record of the registry, so every eligible validator past the limit, is unchanged.
\<close>

theorem activation_first_min_n_c:
  assumes n: "n = length (filter eligible vs)"
  assumes c: "c = churnLimit cfg activeValidatorCount"
  shows "sorted (map (\<lambda>i. (activationEligibilityEpoch (vs ! i), i)) (activationQueue eligible vs))
       \<and> distinct (activationQueue eligible vs)
       \<and> set (activationQueue eligible vs) = {i. i < length vs \<and> eligible (vs ! i)}
       \<and> length (take (min n c) (activationQueue eligible vs)) = min n c
       \<and> length (processActivations cfg eligible e activeValidatorCount vs) = length vs
       \<and> (\<forall>i < length vs.
             processActivations cfg eligible e activeValidatorCount vs ! i =
               (if i \<in> set (take (min n c) (activationQueue eligible vs))
                then activateValidator e (vs ! i) else vs ! i))"
proof -
  let ?q = "activationQueue eligible vs"
  have len: "length ?q = n"
    by (simp add: n length_activationQueue)
  then have same: "take c ?q = take (min n c) ?q"
    by (simp add: min_def)
  have run: "processActivations cfg eligible e activeValidatorCount vs =
      fold (\<lambda>i acc. acc[i := activateValidator e (acc ! i)]) (take (min n c) ?q) vs"
    by (simp add: processActivations_def c [symmetric] same)
  have bound: "\<forall>i \<in> set (take (min n c) ?q). i < length vs"
    using set_activationQueue [of eligible vs] by (auto dest: in_set_takeD)
  have dist: "distinct (take (min n c) ?q)"
    by (simp add: distinct_activationQueue)
  have each: "\<forall>i < length vs.
      processActivations cfg eligible e activeValidatorCount vs ! i =
        (if i \<in> set (take (min n c) ?q) then activateValidator e (vs ! i) else vs ! i)"
    unfolding run using fold_update_nth [OF dist bound] by blast
  have count: "length (take (min n c) ?q) = min n c"
    by (simp add: len)
  have size: "length (processActivations cfg eligible e activeValidatorCount vs) = length vs"
    by (simp add: run length_fold_update)
  from sorted_activationQueue distinct_activationQueue set_activationQueue count size each
  show ?thesis by blast
qed

text \<open>
  The scenario of ten eligible validators and a churn limit of four: the four activated
  are the indices \<open>3, 6, 8, 1\<close>, and the other six stay as they were.
\<close>

lemma demo_activationQueue:
  "activationQueue awaitingActivation demoValidators = [3, 6, 8, 1, 4, 0, 2, 7, 9, 5]"
  by (simp add: activationQueue_def awaitingActivation_def demoValidators_def
      demoValidator_def FAR_FUTURE_EPOCH_def)

lemma demo_processActivations:
  "map activationEpoch
     (processActivations demoRegistryParams awaitingActivation 12 100 demoValidators)
   = [FAR_FUTURE_EPOCH, 12, FAR_FUTURE_EPOCH, 12, FAR_FUTURE_EPOCH, FAR_FUTURE_EPOCH, 12,
      FAR_FUTURE_EPOCH, 12, FAR_FUTURE_EPOCH, 0, 0]"
  by (simp add: processActivations_def churnLimit_def demoRegistryParams_def
        activateValidator_def demo_activationQueue)
     (simp add: demoValidators_def demoValidator_def)

theorem activation_first_min_n_c_witness:
  "10 = length (filter awaitingActivation demoValidators)
   \<and> 4 = churnLimit demoRegistryParams 100
   \<and> take (min 10 4) (activationQueue awaitingActivation demoValidators) = [3, 6, 8, 1]
   \<and> processActivations demoRegistryParams awaitingActivation 12 100 demoValidators ! 8
       = activateValidator 12 (demoValidators ! 8)
   \<and> processActivations demoRegistryParams awaitingActivation 12 100 demoValidators ! 4
       = demoValidators ! 4"
proof -
  have n: "10 = length (filter awaitingActivation demoValidators)"
    by (simp add: awaitingActivation_def demoValidators_def demoValidator_def
        FAR_FUTURE_EPOCH_def)
  have c: "4 = churnLimit demoRegistryParams 100"
    by (simp add: churnLimit_def demoRegistryParams_def)
  have first: "take (min 10 4) (activationQueue awaitingActivation demoValidators) = [3, 6, 8, 1]"
    by (simp add: demo_activationQueue)
  have first4: "take 4 (activationQueue awaitingActivation demoValidators) = [3, 6, 8, 1]"
    by (simp add: demo_activationQueue)
  have len: "length demoValidators = 12"
    by (simp add: demoValidators_def)
  from activation_first_min_n_c [OF n c, of 12]
  have each: "\<forall>i < length demoValidators.
      processActivations demoRegistryParams awaitingActivation 12 100 demoValidators ! i =
        (if i \<in> set (take (min 10 4) (activationQueue awaitingActivation demoValidators))
         then activateValidator 12 (demoValidators ! i) else demoValidators ! i)"
    by blast
  from each have at8:
    "processActivations demoRegistryParams awaitingActivation 12 100 demoValidators ! 8
       = activateValidator 12 (demoValidators ! 8)"
    by (simp add: len first4)
  from each have at4:
    "processActivations demoRegistryParams awaitingActivation 12 100 demoValidators ! 4
       = demoValidators ! 4"
    by (simp add: len first4)
  from n c first at8 at4 show ?thesis by blast
qed

end
